theory Spec2Isabelle
  imports Complex_Main
begin

section \<open>Numbers\<close>

text \<open>
  The script computes with Python ints (the whole-number inputs) and with IEEE doubles.
  A finite double is taken as the real number it stands for: rounding and overflow are left
  out, and the sign of a zero is kept only where a zero divisor decides the sign of an
  infinity. The special values that numpy produces where a real-number operation has no
  value (division by zero, the logarithm outside its domain) are kept, because the script
  tests for one of them with \<^verbatim>\<open>np.isnan\<close>. An identity between two results that the
  doubles reach by different operations holds for them only up to rounding; the properties
  below are those that do not turn on it.
\<close>

datatype npfloat = Fin real | PInf | NInf | NaN

text \<open>
  \<^verbatim>\<open>a / b\<close> on two finite numbers, with numpy's results for a zero divisor. The
  model has one zero; the sign of an infinite quotient is the sign that division by
  \<open>+0.0\<close> gives, or by \<open>-0.0\<close> where the caller says that the zero is negative.
\<close>

definition np_divide_zero :: "real \<Rightarrow> bool \<Rightarrow> npfloat" where
  "np_divide_zero a negative_zero =
     (if a = 0 then NaN
      else if (0 < a) \<noteq> negative_zero then PInf
      else NInf)"

definition np_divide :: "real \<Rightarrow> real \<Rightarrow> npfloat" where
  "np_divide a b =
     (if b \<noteq> 0 then Fin (a / b) else np_divide_zero a False)"




fun np_negative :: "npfloat \<Rightarrow> npfloat" where
  "np_negative (Fin x) = Fin (- x)"
| "np_negative PInf = NInf"
| "np_negative NInf = PInf"
| "np_negative NaN = NaN"


text \<open>\<^verbatim>\<open>np.arange(n)\<close>: the integers \<open>0, \<dots>, n - 1\<close>, none when \<open>n \<le> 0\<close>.\<close>

definition np_arange :: "int \<Rightarrow> int list" where
  "np_arange n = [0..n - 1]"

section \<open>The time-value functions of numpy-financial\<close>

text \<open>
  The script calls \<^verbatim>\<open>npf.fv\<close>, \<^verbatim>\<open>npf.nper\<close> and \<^verbatim>\<open>npf.pmt\<close> of the
  numpy-financial library, always with the default \<^verbatim>\<open>when='end'\<close>, which the library
  converts to \<open>0\<close>. The definitions follow the library's formulas, one call per element of
  an array argument.
\<close>

definition when_end :: real where
  "when_end = 0"

text \<open>
  \<^verbatim>\<open>npf.fv(rate, nper, pmt, pv)\<close>, as released in numpy-financial 1.0.0, with a whole
  number of periods, as in every call of the script:
  \<^verbatim>\<open>
  temp = (1+rate)**nper
  fact = np.where(rate == 0, nper, (1 + rate*when)*(temp - 1)/rate)
  return -(pv*temp + pmt*fact)
  \<close>
\<close>

definition npf_fv :: "real \<Rightarrow> int \<Rightarrow> real \<Rightarrow> real \<Rightarrow> real" where
  "npf_fv rate nper pmt pv =
     - (pv * ((1 + rate) powi nper)
        + pmt * (if rate = 0 then of_int nper
                 else (1 + rate * when_end) * ((1 + rate) powi nper - 1) / rate))"


text \<open>
  \<^verbatim>\<open>npf.pmt(rate, nper, pv, fv=0)\<close>:
  \<^verbatim>\<open>
  temp = (1 + rate)**nper
  mask = (rate == 0)
  masked_rate = np.where(mask, 1, rate)
  fact = np.where(mask != 0, nper, (1 + masked_rate*when)*(temp - 1)/masked_rate)
  return -(fv + pv*temp)/fact
  \<close>
  When \<open>temp\<close> is 1 and the rate negative, \<open>fact\<close> is \<open>+0.0\<close> divided by a negative
  number, that is \<open>-0.0\<close>.
\<close>

definition npf_pmt :: "real \<Rightarrow> int \<Rightarrow> real \<Rightarrow> real \<Rightarrow> npfloat" where
  "npf_pmt rate nper pv fv =
     (let temp = (1 + rate) powi nper;
          mask = (rate = 0);
          masked_rate = (if mask then 1 else rate);
          fact = (if mask then of_int nper
                  else (1 + masked_rate * when_end) * (temp - 1) / masked_rate)
      in if fact = 0 \<and> rate < 0 then np_divide_zero (- (fv + pv * temp)) True
         else np_divide (- (fv + pv * temp)) fact)"

section \<open>Inputs\<close>

text \<open>
  The values read from the Streamlit widgets. A number input whose bounds are ints gives an
  int, one whose bounds are floats gives a float; a radio gives one of its option strings.
\<close>

record inputs =
  include_lisa :: bool
  monthly_deposit :: int
  salary_sacrifice :: string
  current_tax :: string
  retirement_tax :: string
  retirement_age :: int
  growth_rate :: real
  retirement_monthly_withdrawal :: int
  retirement_growth_rate :: real
  retirement_duration :: int

definition brt_tax_rate :: real where "brt_tax_rate = 0.2"
definition hrt_tax_rate :: real where "hrt_tax_rate = 0.4"
definition brt_ni_rate :: real where "brt_ni_rate = 0.08"
definition hrt_ni_rate :: real where "hrt_ni_rate = 0.02"

definition retirement_vehicles :: "string list" where
  "retirement_vehicles = [''pension'', ''LISA'', ''ISA'']"

definition tax_bands :: "string list" where
  "tax_bands = [''BRT'', ''HRT'']"

text \<open>
  What the widgets let through: the minimum and maximum of each \<^verbatim>\<open>st.number_input\<close>
  and the options of each \<^verbatim>\<open>st.radio\<close>.
\<close>

definition valid_inputs :: "inputs \<Rightarrow> bool" where
  "valid_inputs inp \<longleftrightarrow>
     1 \<le> monthly_deposit inp \<and> monthly_deposit inp \<le> 100000 \<and>
     salary_sacrifice inp \<in> set [''Yes'', ''No''] \<and>
     current_tax inp \<in> set tax_bands \<and>
     retirement_tax inp \<in> set tax_bands \<and>
     1 \<le> retirement_age inp \<and> retirement_age inp \<le> 100 \<and>
     0 \<le> growth_rate inp \<and> growth_rate inp \<le> 100 \<and>
     1 \<le> retirement_monthly_withdrawal inp \<and> retirement_monthly_withdrawal inp \<le> 100000 \<and>
     0 \<le> retirement_growth_rate inp \<and> retirement_growth_rate inp \<le> 100 \<and>
     1 \<le> retirement_duration inp \<and> retirement_duration inp \<le> 100"

section \<open>Monthly deposits\<close>

definition pension_monthly_net_deposit :: "inputs \<Rightarrow> real" where
  "pension_monthly_net_deposit inp =
     (if current_tax inp = ''BRT'' \<and> salary_sacrifice inp = ''Yes'' then
        of_int (monthly_deposit inp) / (1 - brt_tax_rate - brt_ni_rate)
      else if current_tax inp = ''BRT'' \<and> salary_sacrifice inp = ''No'' then
        of_int (monthly_deposit inp) / (1 - brt_tax_rate)
      else if current_tax inp = ''HRT'' \<and> salary_sacrifice inp = ''Yes'' then
        of_int (monthly_deposit inp) / (1 - hrt_tax_rate - hrt_ni_rate)
      else
        of_int (monthly_deposit inp) / (1 - hrt_tax_rate))"

definition lisa_monthly_deposit :: "inputs \<Rightarrow> real" where
  "lisa_monthly_deposit inp = of_int (monthly_deposit inp) * 1.25"

text \<open>The three deposits in the order of \<open>retirement_vehicles\<close>: pension, LISA, ISA.\<close>

definition monthly_deposits :: "inputs \<Rightarrow> real list" where
  "monthly_deposits inp =
     [pension_monthly_net_deposit inp, lisa_monthly_deposit inp, of_int (monthly_deposit inp)]"

definition retirement_fvs :: "inputs \<Rightarrow> real list" where
  "retirement_fvs inp =
     map (\<lambda>pmt. - npf_fv (growth_rate inp / 100 / 12) (retirement_age inp * 12) pmt 0)
       (monthly_deposits inp)"

section \<open>Retirement withdrawals\<close>

definition pension_monthly_net_withdrawal :: "inputs \<Rightarrow> real" where
  "pension_monthly_net_withdrawal inp =
     (if retirement_tax inp = ''BRT'' then
        of_int (retirement_monthly_withdrawal inp) / (1 - 0.75 * brt_tax_rate)
      else
        of_int (retirement_monthly_withdrawal inp) / (1 - 0.75 * hrt_tax_rate))"

text \<open>
  The payments passed to \<^verbatim>\<open>npf.nper\<close>, and written (negated again) into the deposit
  columns of the drawdown rows: pension, LISA, ISA.
\<close>

definition monthly_withdrawals :: "inputs \<Rightarrow> real list" where
  "monthly_withdrawals inp =
     [- pension_monthly_net_withdrawal inp,
      - of_int (retirement_monthly_withdrawal inp),
      - of_int (retirement_monthly_withdrawal inp)]"




text \<open>
  \<^verbatim>\<open>npf.pmt\<close> for each fund, negated. The pension entry is then replaced by what is
  left after tax: a quarter of the payment untaxed, and three quarters taxed at the
  retirement band's rate. An infinite or undefined payment stays so, the factors being
  positive.
\<close>

definition retirement_tax_rate :: "inputs \<Rightarrow> real" where
  "retirement_tax_rate inp = (if retirement_tax inp = ''BRT'' then brt_tax_rate else hrt_tax_rate)"

fun pension_payment_after_tax :: "real \<Rightarrow> npfloat \<Rightarrow> npfloat" where
  "pension_payment_after_tax t (Fin p) = Fin (p * 0.25 + p * 0.75 * (1 - t))"
| "pension_payment_after_tax t x = x"

definition retirement_withdrawal_pmt :: "inputs \<Rightarrow> npfloat list" where
  "retirement_withdrawal_pmt inp =
     (let pmts = map (\<lambda>pv. np_negative (npf_pmt (retirement_growth_rate inp / 100 / 12)
                                           (retirement_duration inp * 12) pv 0))
                   (retirement_fvs inp)
      in pmts[0 := pension_payment_after_tax (retirement_tax_rate inp) (pmts ! 0)])"

section \<open>Detailed breakdown: the schedule\<close>

text \<open>One row of a schedule data frame, with the columns the script creates.\<close>

record monthly_record =
  Month :: int
  Growth :: real
  Net_take_home :: real
  Pension_deposit :: real
  LISA_deposit :: real
  ISA_deposit :: real
  Pension_fund :: real
  LISA_fund :: real
  ISA_fund :: real

definition accumulation_months :: "inputs \<Rightarrow> int list" where
  "accumulation_months inp = map (\<lambda>i. i + 1) (np_arange (retirement_age inp * 12))"

definition accumulation_df :: "inputs \<Rightarrow> monthly_record list" where
  "accumulation_df inp =
     map (\<lambda>m. \<lparr>Month = m,
               Growth = growth_rate inp,
               Net_take_home = - of_int (monthly_deposit inp),
               Pension_deposit = pension_monthly_net_deposit inp,
               LISA_deposit = lisa_monthly_deposit inp,
               ISA_deposit = of_int (monthly_deposit inp),
               Pension_fund = - npf_fv (growth_rate inp / 100 / 12) m
                                  (pension_monthly_net_deposit inp) 0,
               LISA_fund = - npf_fv (growth_rate inp / 100 / 12) m
                                  (lisa_monthly_deposit inp) 0,
               ISA_fund = - npf_fv (growth_rate inp / 100 / 12) m
                                  (of_int (monthly_deposit inp)) 0\<rparr>)
       (accumulation_months inp)"

definition drawdown_months :: "inputs \<Rightarrow> int list" where
  "drawdown_months inp = map (\<lambda>i. i + 1) (np_arange (retirement_duration inp * 12))"

text \<open>
  The drawdown rows from given starting funds (pension, LISA, ISA). The script builds this
  frame twice with the same code: from \<open>retirement_fvs\<close>, and in the ten-years-less
  analysis from \<open>retirement_fvs_10_years_less_at_age\<close>.
\<close>

definition drawdown_rows :: "inputs \<Rightarrow> real list \<Rightarrow> monthly_record list" where
  "drawdown_rows inp fvs =
     map (\<lambda>d. let month = d + retirement_age inp * 12 in
              \<lparr>Month = month,
               Growth = retirement_growth_rate inp,
               Net_take_home = of_int (retirement_monthly_withdrawal inp),
               Pension_deposit = - pension_monthly_net_withdrawal inp,
               LISA_deposit = - of_int (retirement_monthly_withdrawal inp),
               ISA_deposit = - of_int (retirement_monthly_withdrawal inp),
               Pension_fund = - npf_fv (retirement_growth_rate inp / 100 / 12)
                                  (month - retirement_age inp * 12)
                                  (- pension_monthly_net_withdrawal inp) (fvs ! 0),
               LISA_fund = - npf_fv (retirement_growth_rate inp / 100 / 12)
                                  (month - retirement_age inp * 12)
                                  (- of_int (retirement_monthly_withdrawal inp)) (fvs ! 1),
               ISA_fund = - npf_fv (retirement_growth_rate inp / 100 / 12)
                                  (month - retirement_age inp * 12)
                                  (- of_int (retirement_monthly_withdrawal inp)) (fvs ! 2)\<rparr>)
       (drawdown_months inp)"

definition drawdown_df :: "inputs \<Rightarrow> monthly_record list" where
  "drawdown_df inp = drawdown_rows inp (retirement_fvs inp)"

text \<open>
  \<^verbatim>\<open>pd.concat([accumulation_df, drawdown_df])\<close>. Dropping the two LISA columns when
  LISAs are excluded removes no row and changes no other column.
\<close>

definition schedule_df :: "inputs \<Rightarrow> monthly_record list" where
  "schedule_df inp = accumulation_df inp @ drawdown_df inp"

section \<open>Deposits stopping ten years before retirement\<close>

text \<open>
  The block under the toggle \<^verbatim>\<open>Show LISA deposit/withdrawal age limitation impacts\<close>.
  With at most ten years to retirement the script only writes that the figures cannot be
  shown; otherwise it computes the funds and the schedule below.
\<close>

datatype error = TruncationUnavailable

definition retirement_fvs_10_years_less :: "inputs \<Rightarrow> real list" where
  "retirement_fvs_10_years_less inp =
     map (\<lambda>pmt. - npf_fv (growth_rate inp / 100 / 12) ((retirement_age inp - 10) * 12) pmt 0)
       (monthly_deposits inp)"

definition retirement_fvs_10_years_less_at_age :: "inputs \<Rightarrow> real list" where
  "retirement_fvs_10_years_less_at_age inp =
     map (\<lambda>pv. - npf_fv (growth_rate inp / 100 / 12) (10 * 12) 0 pv)
       (retirement_fvs_10_years_less inp)"

text \<open>
  \<^verbatim>\<open>accumulation_df.loc[:retirement_age*12-121, ...]\<close>: the frame has the default index
  \<open>0, 1, \<dots>\<close>, and a label slice includes its end, so these are the first
  \<open>retirement_age * 12 - 120\<close> rows.
\<close>

definition accumulation_10_years_less_df :: "inputs \<Rightarrow> monthly_record list" where
  "accumulation_10_years_less_df inp =
     take (nat (retirement_age inp * 12 - 121 + 1)) (accumulation_df inp)"

definition accumulation_10_years_growth_df :: "inputs \<Rightarrow> monthly_record list" where
  "accumulation_10_years_growth_df inp =
     map (\<lambda>i. let month = i + retirement_age inp * 12 - 119 in
              \<lparr>Month = month,
               Growth = growth_rate inp,
               Net_take_home = 0,
               Pension_deposit = 0,
               LISA_deposit = 0,
               ISA_deposit = 0,
               Pension_fund = - npf_fv (growth_rate inp / 100 / 12)
                                  (month - (retirement_age inp * 12 - 120)) 0
                                  (retirement_fvs_10_years_less inp ! 0),
               LISA_fund = - npf_fv (growth_rate inp / 100 / 12)
                                  (month - (retirement_age inp * 12 - 120)) 0
                                  (retirement_fvs_10_years_less inp ! 1),
               ISA_fund = - npf_fv (growth_rate inp / 100 / 12)
                                  (month - (retirement_age inp * 12 - 120)) 0
                                  (retirement_fvs_10_years_less inp ! 2)\<rparr>)
       (np_arange 120)"

definition drawdown_10_years_less_df :: "inputs \<Rightarrow> monthly_record list" where
  "drawdown_10_years_less_df inp = drawdown_rows inp (retirement_fvs_10_years_less_at_age inp)"

definition schedule_10_years_less_df :: "inputs \<Rightarrow> error + monthly_record list" where
  "schedule_10_years_less_df inp =
     (if retirement_age inp \<le> 10 then Inl TruncationUnavailable
      else Inr (accumulation_10_years_less_df inp @ accumulation_10_years_growth_df inp
                @ drawdown_10_years_less_df inp))"

section \<open>The rules as the specification words them\<close>

text \<open>
  The account kinds and tax bands of the specification, its table of rates, and its
  formulas for a gross deposit and a gross withdrawal. They are compared below with what
  the script computes.
\<close>

datatype AccountKind = Pension | RestrictedSavings | GeneralSavings
datatype TaxBand = Basic | Higher

fun taxRate :: "TaxBand \<Rightarrow> real" where
  "taxRate Basic = 0.20"
| "taxRate Higher = 0.40"

fun niRate :: "TaxBand \<Rightarrow> real" where
  "niRate Basic = 0.08"
| "niRate Higher = 0.02"

fun spec_gross_deposit :: "AccountKind \<Rightarrow> bool \<Rightarrow> TaxBand \<Rightarrow> real \<Rightarrow> real" where
  "spec_gross_deposit Pension True band net = net / (1 - taxRate band - niRate band)"
| "spec_gross_deposit Pension False band net = net / (1 - taxRate band)"
| "spec_gross_deposit RestrictedSavings sacrifice band net = net * 1.25"
| "spec_gross_deposit GeneralSavings sacrifice band net = net"

fun spec_gross_withdrawal :: "AccountKind \<Rightarrow> TaxBand \<Rightarrow> real \<Rightarrow> real" where
  "spec_gross_withdrawal Pension band net = net / (1 - 0.75 * taxRate band)"
| "spec_gross_withdrawal RestrictedSavings band net = net"
| "spec_gross_withdrawal GeneralSavings band net = net"

text \<open>
  How the specification's values appear in the script: the option string of a band, the
  option string of the salary-sacrifice radio, and the position of an account in the
  script's three-element arrays.
\<close>

fun band_option :: "TaxBand \<Rightarrow> string" where
  "band_option Basic = ''BRT''"
| "band_option Higher = ''HRT''"

fun sacrifice_option :: "bool \<Rightarrow> string" where
  "sacrifice_option True = ''Yes''"
| "sacrifice_option False = ''No''"

fun vehicle_index :: "AccountKind \<Rightarrow> nat" where
  "vehicle_index Pension = 0"
| "vehicle_index RestrictedSavings = 1"
| "vehicle_index GeneralSavings = 2"

section \<open>The columns of an account and the rows of a phase\<close>

text \<open>The deposit column and the fund column of an account.\<close>

fun deposit_column :: "AccountKind \<Rightarrow> monthly_record \<Rightarrow> real" where
  "deposit_column Pension = Pension_deposit"
| "deposit_column RestrictedSavings = LISA_deposit"
| "deposit_column GeneralSavings = ISA_deposit"

fun fund_column :: "AccountKind \<Rightarrow> monthly_record \<Rightarrow> real" where
  "fund_column Pension = Pension_fund"
| "fund_column RestrictedSavings = LISA_fund"
| "fund_column GeneralSavings = ISA_fund"

text \<open>
  The form of the rows of one phase of a schedule, which starts from a balance \<open>b\<close>: a
  constant rate and deposit, and the fund of row \<open>j\<close>, counted from 0, computed by
  \<open>npf_fv\<close> over \<open>j + 1\<close> periods; and the balance such a phase ends with.
\<close>

definition phase_rows ::
  "AccountKind \<Rightarrow> real \<Rightarrow> real \<Rightarrow> real \<Rightarrow> monthly_record list \<Rightarrow> bool" where
  "phase_rows kind g p b rows \<longleftrightarrow>
     (\<forall>j \<in> {0..<length rows}.
        Growth (rows ! j) = g \<and> deposit_column kind (rows ! j) = p \<and>
        fund_column kind (rows ! j) = - npf_fv (g / 100 / 12) (int j + 1) p b)"

definition closing_balance :: "AccountKind \<Rightarrow> real \<Rightarrow> monthly_record list \<Rightarrow> real" where
  "closing_balance kind b rows = (if rows = [] then b else fund_column kind (last rows))"

text \<open>
  The gross withdrawals of the three accounts, as the script writes them out under
  \<^verbatim>\<open>you would need to withdraw\<close>: pension, LISA, ISA.
\<close>

definition gross_withdrawals :: "inputs \<Rightarrow> real list" where
  "gross_withdrawals inp =
     [pension_monthly_net_withdrawal inp,
      of_int (retirement_monthly_withdrawal inp),
      of_int (retirement_monthly_withdrawal inp)]"

section \<open>An example input\<close>

definition example_inputs :: inputs where
  "example_inputs =
     \<lparr>include_lisa = True, monthly_deposit = 200, salary_sacrifice = ''No'',
      current_tax = ''BRT'', retirement_tax = ''BRT'', retirement_age = 11,
      growth_rate = 5, retirement_monthly_withdrawal = 200,
      retirement_growth_rate = 5, retirement_duration = 1\<rparr>"

text \<open>The same with ten years to retirement.\<close>

definition short_inputs :: inputs where
  "short_inputs = example_inputs\<lparr>retirement_age := 10\<rparr>"



text \<open>
  A small fund and a large withdrawal: 1 a month for one year without growth, then 100 a
  month.
\<close>

definition overdrawn_inputs :: inputs where
  "overdrawn_inputs =
     \<lparr>include_lisa = True, monthly_deposit = 1, salary_sacrifice = ''No'',
      current_tax = ''BRT'', retirement_tax = ''BRT'', retirement_age = 1,
      growth_rate = 0, retirement_monthly_withdrawal = 100,
      retirement_growth_rate = 0, retirement_duration = 1\<rparr>"

section \<open>Properties\<close>

subsection \<open>Deposits and withdrawals\<close>

text \<open>
  C1. For every net monthly deposit, the gross deposit the script computes for an account is
  the specification's: for the pension \<open>net / (1 - taxRate - niRate)\<close> with salary
  sacrifice and \<open>net / (1 - taxRate)\<close> without, the rates being (0.20, 0.08) for the
  basic band and (0.40, 0.02) for the higher band; for the LISA \<open>net * 1.25\<close> whatever
  the band; for the ISA the net amount unchanged.
\<close>

theorem contribution_normalization:
  "current_tax inp = band_option band \<Longrightarrow> salary_sacrifice inp = sacrifice_option sacrifice \<Longrightarrow>
   monthly_deposits inp ! vehicle_index kind =
     spec_gross_deposit kind sacrifice band (of_int (monthly_deposit inp))"
  by (cases kind; cases band; cases sacrifice)
     (simp_all add: monthly_deposits_def pension_monthly_net_deposit_def lisa_monthly_deposit_def
        brt_tax_rate_def brt_ni_rate_def hrt_tax_rate_def hrt_ni_rate_def)

theorem contribution_normalization_witness:
  "current_tax example_inputs = band_option Basic \<and>
   salary_sacrifice example_inputs = sacrifice_option False \<and>
   monthly_deposits example_inputs ! vehicle_index Pension = 250"
  using contribution_normalization [of example_inputs Basic False Pension]
  by (simp add: example_inputs_def)

text \<open>
  C2. For every desired net monthly withdrawal and retirement band, the gross withdrawal is
  \<open>net / (1 - 0.75 * taxRate)\<close> for the pension and the net amount itself for the LISA
  and the ISA; for 200 a month at the basic rate the pension withdrawal is \<open>200 / 0.85\<close>,
  which is 235.29 to two decimal places.
\<close>

theorem withdrawal_normalization:
  "retirement_tax inp = band_option band \<Longrightarrow>
   - (monthly_withdrawals inp ! vehicle_index kind) =
       spec_gross_withdrawal kind band (of_int (retirement_monthly_withdrawal inp)) \<and>
   (band = Basic \<and> retirement_monthly_withdrawal inp = 200 \<longrightarrow>
      pension_monthly_net_withdrawal inp = 200 / 0.85 \<and>
      \<bar>pension_monthly_net_withdrawal inp - 235.29\<bar> < 0.005)"
  by (cases kind; cases band)
     (simp_all add: monthly_withdrawals_def pension_monthly_net_withdrawal_def
        brt_tax_rate_def hrt_tax_rate_def)

theorem withdrawal_normalization_witness:
  "retirement_tax example_inputs = band_option Basic \<and>
   retirement_monthly_withdrawal example_inputs = 200 \<and>
   - (monthly_withdrawals example_inputs ! vehicle_index Pension) = 200 / 0.85 \<and>
   \<bar>pension_monthly_net_withdrawal example_inputs - 235.29\<bar> < 0.005"
  using withdrawal_normalization [of example_inputs Basic Pension]
  by (simp add: example_inputs_def)

subsection \<open>Month numbers\<close>

lemma arange_shift: "map (\<lambda>i. i + k) (np_arange n) = [k..n - 1 + k]"
  by (rule nth_equalityI) (simp_all add: np_arange_def)

lemma accumulation_months_eq: "accumulation_months inp = [1..retirement_age inp * 12]"
  by (simp add: accumulation_months_def arange_shift)

lemma drawdown_months_eq: "drawdown_months inp = [1..retirement_duration inp * 12]"
  by (simp add: drawdown_months_def arange_shift)

lemma upto_shift: "map (\<lambda>d. d + k) [i..j] = [i + k..j + k]"
  by (rule nth_equalityI) simp_all

lemma upto_append:
  assumes "i \<le> j + 1" and "j \<le> k"
  shows "[i..j] @ [j + 1..k] = [i..k]"
proof (cases "j + 1 \<le> k")
  case True
  with assms show ?thesis using upto_split1 [of i "j + 1" k] by simp
next
  case False
  with assms have "j = k" by simp
  then show ?thesis by simp
qed

lemma take_upto: "0 \<le> n \<Longrightarrow> i + n - 1 \<le> j \<Longrightarrow> take (nat n) [i..j] = [i..i + n - 1]"
  by (rule nth_equalityI) (simp_all)

lemma Month_accumulation_df: "map Month (accumulation_df inp) = [1..retirement_age inp * 12]"
  by (simp add: accumulation_df_def accumulation_months_eq o_def)

lemma Month_drawdown_rows:
  "map Month (drawdown_rows inp fvs) =
     [retirement_age inp * 12 + 1..retirement_age inp * 12 + retirement_duration inp * 12]"
  using upto_shift [of "retirement_age inp * 12" 1 "retirement_duration inp * 12"]
  by (simp add: drawdown_rows_def drawdown_months_eq o_def Let_def add.commute)

lemma Month_accumulation_10_years_less_df:
  "10 < retirement_age inp \<Longrightarrow>
   map Month (accumulation_10_years_less_df inp) = [1..(retirement_age inp - 10) * 12]"
  using take_upto [of "retirement_age inp * 12 - 120" 1 "retirement_age inp * 12"]
  by (simp add: accumulation_10_years_less_df_def Month_accumulation_df algebra_simps
        flip: take_map)

lemma Month_accumulation_10_years_growth_df:
  "map Month (accumulation_10_years_growth_df inp) =
     [(retirement_age inp - 10) * 12 + 1..retirement_age inp * 12]"
  using arange_shift [of "retirement_age inp * 12 - 119" 120]
  by (simp add: accumulation_10_years_growth_df_def o_def Let_def algebra_simps)

text \<open>
  C8. Every schedule numbers its rows from 1 in steps of one without a gap, across the
  phase boundaries: accumulation ends at month \<open>retirement_age * 12\<close>, drawdown starts
  at the month after it, and the same holds for the three sub-phases of the
  ten-years-less schedule.
\<close>

theorem month_index_continuous:
  "valid_inputs inp \<Longrightarrow>
   map Month (accumulation_df inp) = [1..retirement_age inp * 12] \<and>
   map Month (drawdown_df inp) =
     [retirement_age inp * 12 + 1..retirement_age inp * 12 + retirement_duration inp * 12] \<and>
   map Month (schedule_df inp) =
     [1..retirement_age inp * 12 + retirement_duration inp * 12] \<and>
   (10 < retirement_age inp \<longrightarrow>
      (\<exists>rows. schedule_10_years_less_df inp = Inr rows \<and>
         map Month rows = [1..retirement_age inp * 12 + retirement_duration inp * 12]))"
proof -
  assume v: "valid_inputs inp"
  let ?a = "retirement_age inp * 12" and ?d = "retirement_duration inp * 12"
  from v have a: "1 \<le> retirement_age inp" and d: "1 \<le> retirement_duration inp"
    by (simp_all add: valid_inputs_def)
  have std: "map Month (schedule_df inp) = [1..?a + ?d]"
    using a d upto_append [of 1 ?a "?a + ?d"]
    by (simp add: schedule_df_def drawdown_df_def Month_accumulation_df Month_drawdown_rows)
  have trunc: "map Month (accumulation_10_years_less_df inp @ accumulation_10_years_growth_df inp
                 @ drawdown_10_years_less_df inp) = [1..?a + ?d]"
    if "10 < retirement_age inp"
  proof -
    have "[1..(retirement_age inp - 10) * 12] @ [(retirement_age inp - 10) * 12 + 1..?a] = [1..?a]"
      using that by (intro upto_append) simp_all
    moreover have "[1..?a] @ [?a + 1..?a + ?d] = [1..?a + ?d]"
      using a d by (intro upto_append) simp_all
    ultimately show ?thesis
      using that
      by (simp add: Month_accumulation_10_years_less_df Month_accumulation_10_years_growth_df
            drawdown_10_years_less_df_def Month_drawdown_rows flip: append_assoc)
  qed
  show ?thesis
    using std trunc
    by (simp add: Month_accumulation_df drawdown_df_def Month_drawdown_rows
          schedule_10_years_less_df_def)
qed

theorem month_index_continuous_witness:
  "valid_inputs example_inputs \<and> 10 < retirement_age example_inputs \<and>
   map Month (schedule_df example_inputs) = [1..144] \<and>
   (\<exists>rows. schedule_10_years_less_df example_inputs = Inr rows \<and> map Month rows = [1..144])"
  using month_index_continuous [of example_inputs]
  by (simp add: valid_inputs_def example_inputs_def tax_bands_def)

subsection \<open>The rows of a phase\<close>

lemma npf_fv_0: "- npf_fv r 0 p b = b"
  by (simp add: npf_fv_def)

lemma phase_closing:
  assumes "phase_rows kind g p b rows"
  shows "closing_balance kind b rows = - npf_fv (g / 100 / 12) (int (length rows)) p b"
proof (cases "rows = []")
  case True
  then show ?thesis by (simp add: closing_balance_def npf_fv_0)
next
  case False
  then have "int (length rows - 1) + 1 = int (length rows)"
    by (cases rows) simp_all
  with assms False show ?thesis
    by (simp add: closing_balance_def phase_rows_def last_conv_nth)
qed

lemma length_accumulation_df: "length (accumulation_df inp) = nat (retirement_age inp * 12)"
  by (simp add: accumulation_df_def accumulation_months_eq)

lemma length_drawdown_rows: "length (drawdown_rows inp fvs) = nat (retirement_duration inp * 12)"
  by (simp add: drawdown_rows_def drawdown_months_eq)

lemma length_accumulation_10_years_growth_df: "length (accumulation_10_years_growth_df inp) = 120"
  by (simp add: accumulation_10_years_growth_df_def np_arange_def)

lemma length_accumulation_10_years_less_df:
  "10 < retirement_age inp \<Longrightarrow>
   length (accumulation_10_years_less_df inp) = nat ((retirement_age inp - 10) * 12)"
  by (simp add: accumulation_10_years_less_df_def length_accumulation_df)

lemma accumulation_phase:
  "phase_rows kind (growth_rate inp) (monthly_deposits inp ! vehicle_index kind) 0
     (accumulation_df inp)"
  by (cases kind)
     (simp_all add: phase_rows_def accumulation_df_def accumulation_months_eq monthly_deposits_def
        add.commute)

lemma drawdown_phase:
  "phase_rows kind (retirement_growth_rate inp) (monthly_withdrawals inp ! vehicle_index kind)
     (fvs ! vehicle_index kind) (drawdown_rows inp fvs)"
  by (cases kind)
     (simp_all add: phase_rows_def drawdown_rows_def drawdown_months_eq monthly_withdrawals_def
        Let_def add.commute)

lemma growth_phase:
  "phase_rows kind (growth_rate inp) 0 (retirement_fvs_10_years_less inp ! vehicle_index kind)
     (accumulation_10_years_growth_df inp)"
  by (cases kind)
     (simp_all add: phase_rows_def accumulation_10_years_growth_df_def np_arange_def
        Let_def add.commute)

lemma take_phase: "phase_rows kind g p b rows \<Longrightarrow> phase_rows kind g p b (take n rows)"
  by (simp add: phase_rows_def)

lemma accumulation_10_years_less_phase:
  "phase_rows kind (growth_rate inp) (monthly_deposits inp ! vehicle_index kind) 0
     (accumulation_10_years_less_df inp)"
  unfolding accumulation_10_years_less_df_def by (rule take_phase) (rule accumulation_phase)

lemma vehicle_index_less: "vehicle_index kind < 3"
  by (cases kind) simp_all

lemma length_monthly_deposits: "length (monthly_deposits inp) = 3"
  by (simp add: monthly_deposits_def)

lemma closing_accumulation_10_years_less_df:
  "10 < retirement_age inp \<Longrightarrow>
   closing_balance kind 0 (accumulation_10_years_less_df inp) =
     retirement_fvs_10_years_less inp ! vehicle_index kind"
  using phase_closing [OF accumulation_10_years_less_phase, of kind inp] vehicle_index_less [of kind]
  by (simp add: length_accumulation_10_years_less_df retirement_fvs_10_years_less_def
        length_monthly_deposits)

lemma closing_accumulation_10_years_growth_df:
  "closing_balance kind (retirement_fvs_10_years_less inp ! vehicle_index kind)
     (accumulation_10_years_growth_df inp) =
   retirement_fvs_10_years_less_at_age inp ! vehicle_index kind"
  using phase_closing [OF growth_phase, of kind inp] vehicle_index_less [of kind]
  by (simp add: length_accumulation_10_years_growth_df retirement_fvs_10_years_less_at_age_def
        retirement_fvs_10_years_less_def length_monthly_deposits)

subsection \<open>Deposits stopping ten years before retirement\<close>

lemma npf_fv_no_payment: "- npf_fv r (int n) 0 b = b * (1 + r) ^ n"
  by (simp add: npf_fv_def)

lemma phase_rows_set:
  assumes "phase_rows kind g p b rows" and "r \<in> set rows"
  shows "deposit_column kind r = p"
  using assms by (auto simp: phase_rows_def in_set_conv_nth)

lemma Net_take_home_growth:
  "r \<in> set (accumulation_10_years_growth_df inp) \<Longrightarrow> Net_take_home r = 0"
  by (auto simp: accumulation_10_years_growth_df_def Let_def)

lemma last_Month_growth:
  "Month (last (accumulation_10_years_growth_df inp)) = retirement_age inp * 12"
proof -
  have "accumulation_10_years_growth_df inp \<noteq> []"
    using length_accumulation_10_years_growth_df [of inp] by auto
  then have "Month (last (accumulation_10_years_growth_df inp)) =
      last (map Month (accumulation_10_years_growth_df inp))"
    by (simp add: last_map)
  also have "\<dots> = retirement_age inp * 12"
    unfolding Month_accumulation_10_years_growth_df
    using upto_rec2 [of "(retirement_age inp - 10) * 12 + 1" "retirement_age inp * 12"]
    by simp
  finally show ?thesis .
qed

text \<open>
  C4. With at most ten years to retirement the ten-years-less schedule is not computed:
  the result is \<open>TruncationUnavailable\<close>. With more than ten years it is defined: a
  contribution phase of exactly \<open>(retirement_age - 10) * 12\<close> months with the usual
  deposits, then exactly 120 months with no deposit and no cash flow, in which each of the
  three funds only grows, by the same factor, up to month \<open>retirement_age * 12\<close>, where
  drawdown starts from the funds so reached.
\<close>

theorem truncated_schedule:
  "(retirement_age inp \<le> 10 \<longrightarrow> schedule_10_years_less_df inp = Inl TruncationUnavailable) \<and>
   (10 < retirement_age inp \<longrightarrow>
      schedule_10_years_less_df inp =
        Inr (accumulation_10_years_less_df inp @ accumulation_10_years_growth_df inp
             @ drawdown_10_years_less_df inp) \<and>
      length (accumulation_10_years_less_df inp) = nat ((retirement_age inp - 10) * 12) \<and>
      (\<forall>r \<in> set (accumulation_10_years_less_df inp).
         deposit_column kind r = monthly_deposits inp ! vehicle_index kind) \<and>
      fund_column kind (last (accumulation_10_years_less_df inp)) =
        retirement_fvs_10_years_less inp ! vehicle_index kind \<and>
      length (accumulation_10_years_growth_df inp) = 120 \<and>
      (\<forall>r \<in> set (accumulation_10_years_growth_df inp).
         Net_take_home r = 0 \<and> deposit_column kind r = 0) \<and>
      (\<forall>j < 120. fund_column kind (accumulation_10_years_growth_df inp ! j) =
         retirement_fvs_10_years_less inp ! vehicle_index kind
           * (1 + growth_rate inp / 100 / 12) ^ (j + 1)) \<and>
      Month (last (accumulation_10_years_growth_df inp)) = retirement_age inp * 12 \<and>
      fund_column kind (last (accumulation_10_years_growth_df inp)) =
        retirement_fvs_10_years_less_at_age inp ! vehicle_index kind \<and>
      drawdown_10_years_less_df inp =
        drawdown_rows inp (retirement_fvs_10_years_less_at_age inp))"
proof (intro conjI impI)
  assume "retirement_age inp \<le> 10"
  then show "schedule_10_years_less_df inp = Inl TruncationUnavailable"
    by (simp add: schedule_10_years_less_df_def)
next
  assume "10 < retirement_age inp"
  then show "schedule_10_years_less_df inp =
        Inr (accumulation_10_years_less_df inp @ accumulation_10_years_growth_df inp
             @ drawdown_10_years_less_df inp)"
    by (simp add: schedule_10_years_less_df_def)
next
  assume "10 < retirement_age inp"
  then show "length (accumulation_10_years_less_df inp) = nat ((retirement_age inp - 10) * 12)"
    by (rule length_accumulation_10_years_less_df)
next
  show "\<forall>r \<in> set (accumulation_10_years_less_df inp).
         deposit_column kind r = monthly_deposits inp ! vehicle_index kind"
    using phase_rows_set [OF accumulation_10_years_less_phase] by blast
next
  assume a: "10 < retirement_age inp"
  then have "accumulation_10_years_less_df inp \<noteq> []"
    using length_accumulation_10_years_less_df [of inp] by auto
  then show "fund_column kind (last (accumulation_10_years_less_df inp)) =
        retirement_fvs_10_years_less inp ! vehicle_index kind"
    using closing_accumulation_10_years_less_df [OF a, of kind]
    by (simp add: closing_balance_def)
next
  show "length (accumulation_10_years_growth_df inp) = 120"
    by (rule length_accumulation_10_years_growth_df)
next
  show "\<forall>r \<in> set (accumulation_10_years_growth_df inp).
         Net_take_home r = 0 \<and> deposit_column kind r = 0"
    using phase_rows_set [OF growth_phase] Net_take_home_growth by blast
next
  show "\<forall>j < 120. fund_column kind (accumulation_10_years_growth_df inp ! j) =
         retirement_fvs_10_years_less inp ! vehicle_index kind
           * (1 + growth_rate inp / 100 / 12) ^ (j + 1)"
  proof (intro allI impI)
    fix j :: nat assume "j < 120"
    then have "fund_column kind (accumulation_10_years_growth_df inp ! j) =
        - npf_fv (growth_rate inp / 100 / 12) (int j + 1) 0
            (retirement_fvs_10_years_less inp ! vehicle_index kind)"
      using growth_phase [of kind inp]
      by (simp add: phase_rows_def length_accumulation_10_years_growth_df)
    moreover have "int j + 1 = int (j + 1)" by simp
    ultimately show "fund_column kind (accumulation_10_years_growth_df inp ! j) =
         retirement_fvs_10_years_less inp ! vehicle_index kind
           * (1 + growth_rate inp / 100 / 12) ^ (j + 1)"
      by (simp only: npf_fv_no_payment)
  qed
next
  show "Month (last (accumulation_10_years_growth_df inp)) = retirement_age inp * 12"
    by (rule last_Month_growth)
next
  have "accumulation_10_years_growth_df inp \<noteq> []"
    using length_accumulation_10_years_growth_df [of inp] by auto
  then show "fund_column kind (last (accumulation_10_years_growth_df inp)) =
        retirement_fvs_10_years_less_at_age inp ! vehicle_index kind"
    using closing_accumulation_10_years_growth_df [of kind inp]
    by (simp add: closing_balance_def)
next
  show "drawdown_10_years_less_df inp =
        drawdown_rows inp (retirement_fvs_10_years_less_at_age inp)"
    by (rule drawdown_10_years_less_df_def)
qed

theorem truncated_schedule_witness:
  "retirement_age short_inputs \<le> 10 \<and>
   schedule_10_years_less_df short_inputs = Inl TruncationUnavailable \<and>
   10 < retirement_age example_inputs \<and>
   length (accumulation_10_years_less_df example_inputs) = 12 \<and>
   (\<exists>r. r \<in> set (accumulation_10_years_less_df example_inputs)) \<and>
   (\<exists>r. r \<in> set (accumulation_10_years_growth_df example_inputs)) \<and>
   length (accumulation_10_years_growth_df example_inputs) = 120 \<and>
   Month (last (accumulation_10_years_growth_df example_inputs)) = 132"
proof -
  have 1: "retirement_age short_inputs \<le> 10"
    by (simp add: short_inputs_def example_inputs_def)
  have 2: "10 < retirement_age example_inputs"
    by (simp add: example_inputs_def)
  have 3: "length (accumulation_10_years_less_df example_inputs) = 12"
    using truncated_schedule [of example_inputs Pension] 2 by (simp add: example_inputs_def)
  have 4: "length (accumulation_10_years_growth_df example_inputs) = 120"
    using truncated_schedule [of example_inputs Pension] 2 by simp
  from 3 have 5: "\<exists>r. r \<in> set (accumulation_10_years_less_df example_inputs)"
    by (cases "accumulation_10_years_less_df example_inputs") auto
  from 4 have 6: "\<exists>r. r \<in> set (accumulation_10_years_growth_df example_inputs)"
    by (cases "accumulation_10_years_growth_df example_inputs") auto
  have 7: "Month (last (accumulation_10_years_growth_df example_inputs)) = 132"
    using truncated_schedule [of example_inputs Pension] 2 by (simp add: example_inputs_def)
  from truncated_schedule [of short_inputs Pension] 1
  have "schedule_10_years_less_df short_inputs = Inl TruncationUnavailable" by simp
  with 1 2 3 4 5 6 7 show ?thesis by simp
qed

subsection \<open>Funds at retirement\<close>

lemma npf_fv_nat:
  "- npf_fv r (int n) p b =
     (if r = 0 then b + p * real n else b * (1 + r) ^ n + p / r * ((1 + r) ^ n - 1))"
  by (simp add: npf_fv_def when_end_def)

lemma npf_fv_mono_periods:
  assumes "0 \<le> r" and "0 \<le> p" and "0 \<le> m" and "m \<le> n"
  shows "- npf_fv r m p 0 \<le> - npf_fv r n p 0"
proof -
  from assms obtain m' n' where mn: "m = int m'" "n = int n'" "m' \<le> n'"
    by (metis nat_0_le nat_mono order_trans)
  show ?thesis
  proof (cases "r = 0")
    case True
    with assms(2) mn show ?thesis
      by (simp add: npf_fv_nat mult_left_mono)
  next
    case False
    with assms(1) have r: "0 < r" by simp
    then have "(1 + r) ^ m' \<le> (1 + r) ^ n'"
      using mn(3) by (intro power_increasing) simp_all
    then have "p / r * ((1 + r) ^ m' - 1) \<le> p / r * ((1 + r) ^ n' - 1)"
      using assms(2) r by (intro mult_left_mono) simp_all
    with False mn show ?thesis
      by (simp add: npf_fv_nat)
  qed
qed

lemma pension_monthly_net_deposit_pos:
  "1 \<le> monthly_deposit inp \<Longrightarrow> 0 < pension_monthly_net_deposit inp"
  by (simp add: pension_monthly_net_deposit_def brt_tax_rate_def brt_ni_rate_def
        hrt_tax_rate_def hrt_ni_rate_def)

lemma monthly_deposits_pos:
  "1 \<le> monthly_deposit inp \<Longrightarrow> 0 < monthly_deposits inp ! vehicle_index kind"
  using pension_monthly_net_deposit_pos [of inp]
  by (cases kind) (simp_all add: monthly_deposits_def lisa_monthly_deposit_def)

lemma monthly_deposits_retirement_age:
  "monthly_deposits (inp\<lparr>retirement_age := years\<rparr>) = monthly_deposits inp"
  by (simp add: monthly_deposits_def pension_monthly_net_deposit_def lisa_monthly_deposit_def)

lemma retirement_fvs_nth:
  "retirement_fvs inp ! vehicle_index kind =
     - npf_fv (growth_rate inp / 100 / 12) (retirement_age inp * 12)
         (monthly_deposits inp ! vehicle_index kind) 0"
  using vehicle_index_less [of kind]
  by (simp add: retirement_fvs_def length_monthly_deposits)

text \<open>
  C7. For each account, a fixed monthly deposit and a growth rate that is not negative, the
  fund at retirement does not decrease when the years to retirement increase.
\<close>

theorem terminal_value_monotone:
  "1 \<le> monthly_deposit inp \<Longrightarrow> 0 \<le> growth_rate inp \<Longrightarrow>
   0 \<le> retirement_age inp \<Longrightarrow> retirement_age inp \<le> years \<Longrightarrow>
   retirement_fvs inp ! vehicle_index kind
     \<le> retirement_fvs (inp\<lparr>retirement_age := years\<rparr>) ! vehicle_index kind"
proof -
  assume d: "1 \<le> monthly_deposit inp" and g: "0 \<le> growth_rate inp"
    and a: "0 \<le> retirement_age inp" and y: "retirement_age inp \<le> years"
  from g have "0 \<le> growth_rate inp / 100 / 12" by simp
  moreover from d have "0 \<le> monthly_deposits inp ! vehicle_index kind"
    using monthly_deposits_pos [of inp kind] by simp
  moreover from a have "0 \<le> retirement_age inp * 12" by simp
  moreover from y have "retirement_age inp * 12 \<le> years * 12" by simp
  ultimately have "- npf_fv (growth_rate inp / 100 / 12) (retirement_age inp * 12)
         (monthly_deposits inp ! vehicle_index kind) 0
      \<le> - npf_fv (growth_rate inp / 100 / 12) (years * 12)
         (monthly_deposits inp ! vehicle_index kind) 0"
    by (rule npf_fv_mono_periods)
  then show ?thesis
    by (simp add: retirement_fvs_nth monthly_deposits_retirement_age)
qed

theorem terminal_value_monotone_witness:
  "1 \<le> monthly_deposit example_inputs \<and> 0 \<le> growth_rate example_inputs \<and>
   0 \<le> retirement_age example_inputs \<and> retirement_age example_inputs \<le> 12 \<and>
   retirement_fvs example_inputs ! vehicle_index GeneralSavings
     \<le> retirement_fvs (example_inputs\<lparr>retirement_age := 12\<rparr>) ! vehicle_index GeneralSavings"
  using terminal_value_monotone [of example_inputs 12 GeneralSavings]
  by (simp add: example_inputs_def)

subsection \<open>How long the withdrawals last\<close>


lemma pension_monthly_net_withdrawal_pos:
  "1 \<le> retirement_monthly_withdrawal inp \<Longrightarrow> 0 < pension_monthly_net_withdrawal inp"
  by (simp add: pension_monthly_net_withdrawal_def brt_tax_rate_def hrt_tax_rate_def)

lemma monthly_withdrawals_gross:
  "monthly_withdrawals inp ! vehicle_index kind = - (gross_withdrawals inp ! vehicle_index kind)"
  by (cases kind) (simp_all add: monthly_withdrawals_def gross_withdrawals_def)

lemma gross_withdrawals_pos:
  "1 \<le> retirement_monthly_withdrawal inp \<Longrightarrow> 0 < gross_withdrawals inp ! vehicle_index kind"
  using pension_monthly_net_withdrawal_pos [of inp]
  by (cases kind) (simp_all add: gross_withdrawals_def)






subsection \<open>The rates passed to the time-value functions\<close>







subsection \<open>Signs\<close>

lemma npf_fv_pos:
  assumes "0 \<le> r" and "0 < p" and "0 < m"
  shows "0 < - npf_fv r (int m) p 0"
proof (cases "r = 0")
  case True
  with assms show ?thesis by (simp add: npf_fv_nat)
next
  case False
  with assms(1) have r: "0 < r" by simp
  with assms(3) have "1 < (1 + r) ^ m" by (intro one_less_power) simp_all
  with r assms(2) have "0 < p / r * ((1 + r) ^ m - 1)" by simp
  with False show ?thesis by (simp add: npf_fv_nat)
qed

lemma Net_take_home_accumulation_df:
  "r \<in> set (accumulation_df inp) \<Longrightarrow> Net_take_home r = - of_int (monthly_deposit inp)"
  by (auto simp: accumulation_df_def)

lemma Net_take_home_drawdown_rows:
  "r \<in> set (drawdown_rows inp fvs) \<Longrightarrow>
   Net_take_home r = of_int (retirement_monthly_withdrawal inp)"
  by (auto simp: drawdown_rows_def Let_def)

lemma accumulation_row_signs:
  assumes "valid_inputs inp" and "r \<in> set (accumulation_df inp)"
  shows "Net_take_home r = - of_int (monthly_deposit inp) \<and> Net_take_home r < 0 \<and>
         deposit_column kind r = monthly_deposits inp ! vehicle_index kind \<and>
         0 < deposit_column kind r \<and> 0 \<le> fund_column kind r"
proof -
  let ?p = "monthly_deposits inp ! vehicle_index kind"
  from assms(1) have d: "1 \<le> monthly_deposit inp" and g: "0 \<le> growth_rate inp / 100 / 12"
    by (simp_all add: valid_inputs_def)
  from d have p: "0 < ?p" by (rule monthly_deposits_pos)
  from assms(2) obtain j where j: "j < length (accumulation_df inp)" "r = accumulation_df inp ! j"
    by (auto simp: in_set_conv_nth)
  with accumulation_phase [of kind inp]
  have dep: "deposit_column kind r = ?p"
    and "fund_column kind r = - npf_fv (growth_rate inp / 100 / 12) (int j + 1) ?p 0"
    by (simp_all add: phase_rows_def)
  moreover have "int j + 1 = int (Suc j)" by simp
  moreover have "0 < - npf_fv (growth_rate inp / 100 / 12) (int (Suc j)) ?p 0"
    using g p by (rule npf_fv_pos) simp
  ultimately have "0 \<le> fund_column kind r"
    by simp
  with dep p d Net_take_home_accumulation_df [OF assms(2)] show ?thesis by simp
qed

lemma drawdown_row_signs:
  assumes "valid_inputs inp" and "r \<in> set (drawdown_rows inp fvs)"
  shows "Net_take_home r = of_int (retirement_monthly_withdrawal inp) \<and> 0 < Net_take_home r \<and>
         deposit_column kind r = - (gross_withdrawals inp ! vehicle_index kind) \<and>
         deposit_column kind r < 0"
proof -
  from assms(1) have w: "1 \<le> retirement_monthly_withdrawal inp"
    by (simp add: valid_inputs_def)
  from assms(2) obtain j where "j < length (drawdown_rows inp fvs)" "r = drawdown_rows inp fvs ! j"
    by (auto simp: in_set_conv_nth)
  with drawdown_phase [of kind inp fvs]
  have "deposit_column kind r = - (gross_withdrawals inp ! vehicle_index kind)"
    by (simp add: phase_rows_def monthly_withdrawals_gross)
  with gross_withdrawals_pos [OF w, of kind] w Net_take_home_drawdown_rows [OF assms(2)]
  show ?thesis by simp
qed

lemma growth_row_signs:
  assumes "valid_inputs inp" and "10 < retirement_age inp"
    and "r \<in> set (accumulation_10_years_growth_df inp)"
  shows "Net_take_home r = 0 \<and> deposit_column kind r = 0 \<and> 0 \<le> fund_column kind r"
proof -
  let ?p = "monthly_deposits inp ! vehicle_index kind"
  let ?b = "retirement_fvs_10_years_less inp ! vehicle_index kind"
  from assms(1) have d: "1 \<le> monthly_deposit inp" and g: "0 \<le> growth_rate inp / 100 / 12"
    by (simp_all add: valid_inputs_def)
  from assms(2) obtain m where m: "(retirement_age inp - 10) * 12 = int m" "0 < m"
    by (metis nat_0_le less_imp_le zero_less_nat_eq mult_pos_pos diff_gt_0_iff_gt zero_less_numeral)
  have "?b = - npf_fv (growth_rate inp / 100 / 12) ((retirement_age inp - 10) * 12) ?p 0"
    using vehicle_index_less [of kind]
    by (simp add: retirement_fvs_10_years_less_def length_monthly_deposits)
  then have "?b = - npf_fv (growth_rate inp / 100 / 12) (int m) ?p 0"
    by (simp only: m(1))
  moreover have "0 < - npf_fv (growth_rate inp / 100 / 12) (int m) ?p 0"
    using g monthly_deposits_pos [OF d] m(2) by (rule npf_fv_pos)
  ultimately have b: "0 < ?b" by (simp only:)
  from assms(3) obtain j where j: "j < length (accumulation_10_years_growth_df inp)"
      "r = accumulation_10_years_growth_df inp ! j"
    by (auto simp: in_set_conv_nth)
  with growth_phase [of kind inp]
  have dep: "deposit_column kind r = 0"
    and "fund_column kind r = - npf_fv (growth_rate inp / 100 / 12) (int j + 1) 0 ?b"
    by (simp_all add: phase_rows_def)
  moreover have "int j + 1 = int (Suc j)" by simp
  ultimately have "fund_column kind r = ?b * (1 + growth_rate inp / 100 / 12) ^ Suc j"
    by (simp only: npf_fv_no_payment)
  moreover from g have "0 < (1 + growth_rate inp / 100 / 12) ^ Suc j"
    by (intro zero_less_power) simp
  ultimately have "0 \<le> fund_column kind r"
    using b by simp
  with dep Net_take_home_growth [OF assms(3)] show ?thesis by simp
qed

text \<open>
  C9, as the script has it. In every accumulation row, of either schedule, the cash flow to
  the saver is the net deposit negated, so negative; each account's deposit is its gross
  deposit, which is positive; and each fund is at least zero. In every drawdown row, of
  either schedule, the cash flow is the net withdrawal, so positive, and each deposit column
  holds the gross withdrawal of the account negated, so a negative number. In the 120
  growth-only rows of the ten-years-less schedule cash flow and deposits are zero and each
  fund is at least zero. Nothing is said of the funds in drawdown rows: the script does not
  keep them from falling below zero.
\<close>

theorem sign_convention:
  "valid_inputs inp \<Longrightarrow>
   (\<forall>r \<in> set (accumulation_df inp).
      Net_take_home r = - of_int (monthly_deposit inp) \<and> Net_take_home r < 0 \<and>
      deposit_column kind r = monthly_deposits inp ! vehicle_index kind \<and>
      0 < deposit_column kind r \<and> 0 \<le> fund_column kind r) \<and>
   (\<forall>r \<in> set (drawdown_df inp).
      Net_take_home r = of_int (retirement_monthly_withdrawal inp) \<and> 0 < Net_take_home r \<and>
      deposit_column kind r = - (gross_withdrawals inp ! vehicle_index kind) \<and>
      deposit_column kind r < 0) \<and>
   (10 < retirement_age inp \<longrightarrow>
      (\<forall>r \<in> set (accumulation_10_years_less_df inp).
         Net_take_home r = - of_int (monthly_deposit inp) \<and> Net_take_home r < 0 \<and>
         deposit_column kind r = monthly_deposits inp ! vehicle_index kind \<and>
         0 < deposit_column kind r \<and> 0 \<le> fund_column kind r) \<and>
      (\<forall>r \<in> set (accumulation_10_years_growth_df inp).
         Net_take_home r = 0 \<and> deposit_column kind r = 0 \<and> 0 \<le> fund_column kind r) \<and>
      (\<forall>r \<in> set (drawdown_10_years_less_df inp).
         Net_take_home r = of_int (retirement_monthly_withdrawal inp) \<and> 0 < Net_take_home r \<and>
         deposit_column kind r = - (gross_withdrawals inp ! vehicle_index kind) \<and>
         deposit_column kind r < 0))"
proof -
  assume v: "valid_inputs inp"
  have "set (accumulation_10_years_less_df inp) \<subseteq> set (accumulation_df inp)"
    unfolding accumulation_10_years_less_df_def by (rule set_take_subset)
  then have less: "\<forall>r \<in> set (accumulation_10_years_less_df inp).
         Net_take_home r = - of_int (monthly_deposit inp) \<and> Net_take_home r < 0 \<and>
         deposit_column kind r = monthly_deposits inp ! vehicle_index kind \<and>
         0 < deposit_column kind r \<and> 0 \<le> fund_column kind r"
    using accumulation_row_signs [OF v] by blast
  have draw: "\<forall>r \<in> set (drawdown_df inp).
      Net_take_home r = of_int (retirement_monthly_withdrawal inp) \<and> 0 < Net_take_home r \<and>
      deposit_column kind r = - (gross_withdrawals inp ! vehicle_index kind) \<and>
      deposit_column kind r < 0"
    unfolding drawdown_df_def
    using drawdown_row_signs [OF v] by blast
  have draw10: "\<forall>r \<in> set (drawdown_10_years_less_df inp).
      Net_take_home r = of_int (retirement_monthly_withdrawal inp) \<and> 0 < Net_take_home r \<and>
      deposit_column kind r = - (gross_withdrawals inp ! vehicle_index kind) \<and>
      deposit_column kind r < 0"
    unfolding drawdown_10_years_less_df_def
    using drawdown_row_signs [OF v] by blast
  show ?thesis
    using accumulation_row_signs [OF v] growth_row_signs [OF v] less draw draw10
    by blast
qed

theorem sign_convention_witness:
  "valid_inputs example_inputs \<and> 10 < retirement_age example_inputs \<and>
   hd (accumulation_df example_inputs) \<in> set (accumulation_df example_inputs) \<and>
   hd (accumulation_10_years_less_df example_inputs)
     \<in> set (accumulation_10_years_less_df example_inputs) \<and>
   hd (accumulation_10_years_growth_df example_inputs)
     \<in> set (accumulation_10_years_growth_df example_inputs) \<and>
   hd (drawdown_df example_inputs) \<in> set (drawdown_df example_inputs) \<and>
   hd (drawdown_10_years_less_df example_inputs)
     \<in> set (drawdown_10_years_less_df example_inputs) \<and>
   Net_take_home (hd (accumulation_df example_inputs)) = - 200 \<and>
   0 \<le> fund_column Pension (hd (accumulation_df example_inputs)) \<and>
   Net_take_home (hd (drawdown_df example_inputs)) = 200 \<and>
   deposit_column Pension (hd (drawdown_df example_inputs)) < 0 \<and>
   0 \<le> fund_column Pension (hd (accumulation_10_years_growth_df example_inputs))"
proof -
  have v: "valid_inputs example_inputs"
    by (simp add: valid_inputs_def example_inputs_def tax_bands_def)
  have y: "10 < retirement_age example_inputs"
    by (simp add: example_inputs_def)
  have "length (accumulation_df example_inputs) = 132"
    by (simp add: length_accumulation_df example_inputs_def)
  then have a: "hd (accumulation_df example_inputs) \<in> set (accumulation_df example_inputs)"
    by (intro hd_in_set) auto
  have "length (accumulation_10_years_less_df example_inputs) = 12"
    using length_accumulation_10_years_less_df [OF y] by (simp add: example_inputs_def)
  then have l: "hd (accumulation_10_years_less_df example_inputs)
      \<in> set (accumulation_10_years_less_df example_inputs)"
    by (intro hd_in_set) auto
  have g: "hd (accumulation_10_years_growth_df example_inputs)
      \<in> set (accumulation_10_years_growth_df example_inputs)"
    using length_accumulation_10_years_growth_df [of example_inputs] by (intro hd_in_set) auto
  have "length (drawdown_df example_inputs) = 12"
    by (simp add: drawdown_df_def length_drawdown_rows example_inputs_def)
  then have d: "hd (drawdown_df example_inputs) \<in> set (drawdown_df example_inputs)"
    by (intro hd_in_set) auto
  have "length (drawdown_10_years_less_df example_inputs) = 12"
    by (simp add: drawdown_10_years_less_df_def length_drawdown_rows example_inputs_def)
  then have d10: "hd (drawdown_10_years_less_df example_inputs)
      \<in> set (drawdown_10_years_less_df example_inputs)"
    by (intro hd_in_set) auto
  have m: "monthly_deposit example_inputs = 200" "retirement_monthly_withdrawal example_inputs = 200"
    by (simp_all add: example_inputs_def)
  note sc = sign_convention [OF v, of Pension]
  from sc a have "Net_take_home (hd (accumulation_df example_inputs))
        = - of_int (monthly_deposit example_inputs)"
    and fa: "0 \<le> fund_column Pension (hd (accumulation_df example_inputs))"
    by blast+
  then have na: "Net_take_home (hd (accumulation_df example_inputs)) = - 200"
    by (simp add: m)
  from sc d have "Net_take_home (hd (drawdown_df example_inputs))
        = of_int (retirement_monthly_withdrawal example_inputs)"
    and dd: "deposit_column Pension (hd (drawdown_df example_inputs)) < 0"
    by blast+
  then have nd: "Net_take_home (hd (drawdown_df example_inputs)) = 200"
    by (simp add: m)
  from sc y g have fg: "0 \<le> fund_column Pension (hd (accumulation_10_years_growth_df example_inputs))"
    by blast
  from v y a l g d d10 na fa nd dd fg show ?thesis
    by (simp only: simp_thms)
qed

text \<open>
  C9 as stated has every fund balance at least zero. With 1 a month saved for a year and
  100 a month withdrawn, the ISA fund of 12 stands at \<open>-88\<close> in month 13, the first
  month of the drawdown.
\<close>

theorem overdrawn_fund_negative:
  "valid_inputs overdrawn_inputs \<and>
   Month (schedule_df overdrawn_inputs ! 12) = 13 \<and>
   ISA_deposit (schedule_df overdrawn_inputs ! 12) = - 100 \<and>
   ISA_fund (schedule_df overdrawn_inputs ! 12) = - 88"
proof -
  have v: "valid_inputs overdrawn_inputs"
    by (simp add: valid_inputs_def overdrawn_inputs_def tax_bands_def)
  have a: "length (accumulation_df overdrawn_inputs) = 12"
    by (simp add: length_accumulation_df overdrawn_inputs_def)
  have f: "retirement_fvs overdrawn_inputs ! 2 = 12"
    by (simp add: retirement_fvs_def monthly_deposits_def overdrawn_inputs_def npf_fv_def)
  have m: "drawdown_months overdrawn_inputs = 1 # [2..12]"
    by (simp add: drawdown_months_eq overdrawn_inputs_def upto_rec1)
  have "schedule_df overdrawn_inputs ! 12 = drawdown_df overdrawn_inputs ! 0"
    using a by (simp add: schedule_df_def nth_append)
  moreover have "Month (drawdown_df overdrawn_inputs ! 0) = 13"
    and "ISA_deposit (drawdown_df overdrawn_inputs ! 0) = - 100"
    and "ISA_fund (drawdown_df overdrawn_inputs ! 0) = - 88"
    by (simp_all add: drawdown_df_def drawdown_rows_def m f Let_def)
       (simp_all add: overdrawn_inputs_def npf_fv_def)
  ultimately show ?thesis using v by simp
qed

end
